theory Spec2Isabelle
  imports Main "HOL-Library.Word"
begin

section \<open>The host: strings, the document tree, the console\<close>

text \<open>
  The program is the script \<^verbatim>\<open>recipe_app/static/js/main.js\<close>:
  \<^verbatim>\<open>
  document.addEventListener('DOMContentLoaded', function() {
      console.log('Recipe app initialized successfully');

      // Check if elements are loading
      const mainContent = document.querySelector('main');
      if (mainContent) {
          console.log('Main content found:', mainContent.innerHTML.length, 'characters');
      } else {
          console.error('Main content not found');
      }
  });
  \<close>
  It runs in a browser. What it uses (the properties \<^verbatim>\<open>addEventListener\<close> and
  \<^verbatim>\<open>querySelector\<close> of \<^verbatim>\<open>document\<close>, \<^verbatim>\<open>innerHTML\<close>, \<^verbatim>\<open>length\<close>, \<^verbatim>\<open>console.log\<close>,
  \<^verbatim>\<open>console.error\<close>) belongs to the host; the host is modelled after the ECMAScript,
  DOM and HTML standards, as far as the script uses it. The input of the script is the
  page: the document tree. The built-in objects of the realm are the standard ones
  (no other script has replaced them).
\<close>

subsection \<open>Strings\<close>

text \<open>
  A JavaScript string is a sequence of 16-bit code units and \<^verbatim>\<open>length\<close> is the number
  of code units. A character outside the Basic Multilingual Plane is a surrogate pair
  and counts as two.
\<close>

type_synonym code_unit = "16 word"
type_synonym jsstring = "code_unit list"

definition js :: "string \<Rightarrow> jsstring" where
  "js s = map (\<lambda>c. of_nat (of_char c)) s"

subsection \<open>The document tree\<close>

text \<open>
  An attribute has a namespace (or none), a prefix (or none), a local name and a value.
  An element has a namespace (or none), a prefix (or none), a local name, its attributes
  in order, its \<^verbatim>\<open>is\<close> value (or none), and, for an \<^verbatim>\<open>object\<close> element, whether it
  shows its fallback content.
\<close>

datatype namespace = HTMLns | MathMLns | SVGns | XLinkns | XMLns | XMLNSns | Otherns jsstring

record attr =
  a_namespace :: "namespace option"
  a_prefix :: "jsstring option"
  a_local :: jsstring
  a_value :: jsstring

record element =
  e_namespace :: "namespace option"
  e_prefix :: "jsstring option"
  e_local :: jsstring
  e_attributes :: "attr list"
  e_is :: "jsstring option"
  e_fallback :: bool

text \<open>
  A node is an element with its children and its template contents (the children of
  the document fragment that a \<^verbatim>\<open>template\<close> element owns; unused by other elements),
  a text node, a comment, a processing instruction (target, data) or a document type
  (name). A document is the list of the children of the Document node, in order.
\<close>

datatype node =
    Element element "node list" "node list"
  | Text jsstring
  | Comment jsstring
  | ProcessingInstruction jsstring jsstring
  | DocumentType jsstring

type_synonym dom = "node list"

definition in_html :: "element \<Rightarrow> string \<Rightarrow> bool" where
  "in_html e name = (e_namespace e = Some HTMLns \<and> e_local e = js name)"

definition in_html_any :: "element \<Rightarrow> string list \<Rightarrow> bool" where
  "in_html_any e names = (e_namespace e = Some HTMLns \<and> e_local e \<in> set (map js names))"

definition get_attribute :: "string \<Rightarrow> element \<Rightarrow> jsstring option" where
  "get_attribute name e =
     map_option a_value
       (find (\<lambda>a. a_namespace a = None \<and> a_local a = js name) (e_attributes e))"

subsection \<open>Errors\<close>

text \<open>
  What the operations used by the script can throw: \<^verbatim>\<open>TypeError\<close> from calling what
  is no function and from reading a property of \<^verbatim>\<open>null\<close> or \<^verbatim>\<open>undefined\<close>,
  \<^verbatim>\<open>SyntaxError\<close> from \<^verbatim>\<open>querySelector\<close> on a string that is no selector,
  \<^verbatim>\<open>InvalidStateError\<close> from the XML serialization of a tree that is not well-formed.
\<close>

datatype jserror = SyntaxError | TypeError | InvalidStateError

datatype completion = Normal | Throw jserror

subsection \<open>Named properties of the document\<close>

text \<open>
  The script reads the properties \<^verbatim>\<open>addEventListener\<close> and \<^verbatim>\<open>querySelector\<close> of
  \<^verbatim>\<open>document\<close> and calls what it gets. A Document has named properties, and they
  come before the built-in ones: the name \<open>n\<close> is a named property when the tree of the
  document has an exposed \<^verbatim>\<open>embed\<close>, a \<^verbatim>\<open>form\<close>, an \<^verbatim>\<open>iframe\<close>, an \<^verbatim>\<open>img\<close> or an
  exposed \<^verbatim>\<open>object\<close> element whose \<^verbatim>\<open>name\<close> attribute is \<open>n\<close>, an exposed
  \<^verbatim>\<open>object\<close> whose \<^verbatim>\<open>id\<close> is \<open>n\<close>, or an \<^verbatim>\<open>img\<close> whose \<^verbatim>\<open>id\<close> is \<open>n\<close> and whose
  \<^verbatim>\<open>name\<close> is not empty (\<open>n\<close> not empty). An \<^verbatim>\<open>embed\<close> or \<^verbatim>\<open>object\<close> is exposed
  if it has no exposed \<^verbatim>\<open>object\<close> ancestor and, for an \<^verbatim>\<open>object\<close>, it does not show
  its fallback content or has no \<^verbatim>\<open>object\<close> or \<^verbatim>\<open>embed\<close> descendant. The value of a
  named property is an element, a collection of elements or the window of an
  \<^verbatim>\<open>iframe\<close>; none of them can be called.
\<close>

fun has_plugin :: "node \<Rightarrow> bool" where
  "has_plugin (Element e cs tc) =
     (in_html_any e [''object'', ''embed''] \<or> list_ex has_plugin cs)"
| "has_plugin (Text d) = False"
| "has_plugin (Comment d) = False"
| "has_plugin (ProcessingInstruction t d) = False"
| "has_plugin (DocumentType n) = False"

definition exposed :: "bool \<Rightarrow> element \<Rightarrow> node list \<Rightarrow> bool" where
  "exposed below_exposed_object e cs =
     (\<not> below_exposed_object \<and>
      (in_html e ''embed'' \<or>
       in_html e ''object'' \<and> (\<not> e_fallback e \<or> \<not> list_ex has_plugin cs)))"

definition contributes :: "jsstring \<Rightarrow> bool \<Rightarrow> element \<Rightarrow> node list \<Rightarrow> bool" where
  "contributes n below_exposed_object e cs =
     (n \<noteq> [] \<and>
      ((in_html_any e [''form'', ''iframe'', ''img''] \<or> exposed below_exposed_object e cs) \<and>
         get_attribute ''name'' e = Some n \<or>
       in_html e ''object'' \<and> exposed below_exposed_object e cs \<and>
         get_attribute ''id'' e = Some n \<or>
       in_html e ''img'' \<and> get_attribute ''id'' e = Some n \<and>
         get_attribute ''name'' e \<noteq> None \<and> get_attribute ''name'' e \<noteq> Some []))"

fun named_in :: "jsstring \<Rightarrow> bool \<Rightarrow> node \<Rightarrow> bool" where
  "named_in n below (Element e cs tc) =
     (contributes n below e cs \<or>
      list_ex (named_in n (below \<or> in_html e ''object'' \<and> exposed below e cs)) cs)"
| "named_in n below (Text d) = False"
| "named_in n below (Comment d) = False"
| "named_in n below (ProcessingInstruction t d) = False"
| "named_in n below (DocumentType nm) = False"

definition shadowed :: "jsstring \<Rightarrow> dom \<Rightarrow> bool" where
  "shadowed n d = list_ex (named_in n False) d"

subsection \<open>querySelector\<close>

text \<open>
  \<^verbatim>\<open>querySelector(s)\<close> on the document returns the first element, in tree order
  (preorder, depth first), among the descendants of the document that matches \<^verbatim>\<open>s\<close>,
  or \<^verbatim>\<open>null\<close> (\<open>None\<close>). Template contents are not descendants. The argument is read
  as a type selector without a namespace, the only kind the script passes: it matches
  the elements of every namespace whose local name is the selector. The empty string
  is no selector.
\<close>

fun matches_type :: "jsstring \<Rightarrow> node \<Rightarrow> bool" where
  "matches_type t (Element e cs tc) = (e_local e = t)"
| "matches_type t (Text d) = False"
| "matches_type t (Comment d) = False"
| "matches_type t (ProcessingInstruction tg d) = False"
| "matches_type t (DocumentType n) = False"

fun first_in_node :: "jsstring \<Rightarrow> node \<Rightarrow> node option"
  and first_in_nodes :: "jsstring \<Rightarrow> node list \<Rightarrow> node option" where
  "first_in_node t (Element e cs tc) =
     (if e_local e = t then Some (Element e cs tc) else first_in_nodes t cs)"
| "first_in_node t (Text d) = None"
| "first_in_node t (Comment d) = None"
| "first_in_node t (ProcessingInstruction tg d) = None"
| "first_in_node t (DocumentType n) = None"
| "first_in_nodes t [] = None"
| "first_in_nodes t (n # ns) =
     (case first_in_node t n of Some m \<Rightarrow> Some m | None \<Rightarrow> first_in_nodes t ns)"

definition querySelector :: "jsstring \<Rightarrow> dom \<Rightarrow> jserror + node option" where
  "querySelector s d = (if s = [] then Inl SyntaxError else Inr (first_in_nodes s d))"

text \<open>The nodes of a tree in tree order, and all matches of a type selector.\<close>

fun preorder :: "node \<Rightarrow> node list" where
  "preorder (Element e cs tc) = Element e cs tc # concat (map preorder cs)"
| "preorder (Text d) = [Text d]"
| "preorder (Comment d) = [Comment d]"
| "preorder (ProcessingInstruction t d) = [ProcessingInstruction t d]"
| "preorder (DocumentType n) = [DocumentType n]"

definition descendants :: "dom \<Rightarrow> node list" where
  "descendants d = concat (map preorder d)"

definition querySelectorAll :: "jsstring \<Rightarrow> dom \<Rightarrow> node list" where
  "querySelectorAll s d = filter (matches_type s) (descendants d)"

subsection \<open>innerHTML\<close>

text \<open>
  The HTML fragment serialization of an element is the markup of what is inside it.
  Text is escaped, except below the raw-text elements of the HTML
  namespace (\<^verbatim>\<open>noscript\<close> is one where scripting is enabled: in the document, not in
  template contents, whose document has no browsing context). An element of the HTML
  namespace that serializes as void has no end tag and its children are skipped. For a
  \<^verbatim>\<open>template\<close> element the template contents are serialized in place of the children.
  Shadow roots are not serialized. In text and in attribute values the ampersand, the
  no-break space, \<^verbatim>\<open><\<close> and \<^verbatim>\<open>>\<close> are escaped; in attribute values the double
  quote is escaped as well.
\<close>

definition escape_unit :: "bool \<Rightarrow> code_unit \<Rightarrow> jsstring" where
  "escape_unit attribute_mode c =
     (if c = 0x26 then js ''&amp;''
      else if c = 0xA0 then js ''&nbsp;''
      else if c = 0x3C then js ''&lt;''
      else if c = 0x3E then js ''&gt;''
      else if attribute_mode \<and> c = 0x22 then js ''&quot;''
      else [c])"

definition escape :: "bool \<Rightarrow> jsstring \<Rightarrow> jsstring" where
  "escape attribute_mode s = concat (map (escape_unit attribute_mode) s)"

definition qualified_name :: "jsstring option \<Rightarrow> jsstring \<Rightarrow> jsstring" where
  "qualified_name p l = (case p of None \<Rightarrow> l | Some q \<Rightarrow> q @ js '':'' @ l)"

definition tagname :: "element \<Rightarrow> jsstring" where
  "tagname e =
     (if e_namespace e = Some HTMLns \<or> e_namespace e = Some MathMLns \<or>
         e_namespace e = Some SVGns
      then e_local e else qualified_name (e_prefix e) (e_local e))"

definition serialized_name :: "attr \<Rightarrow> jsstring" where
  "serialized_name a =
     (case a_namespace a of
        None \<Rightarrow> a_local a
      | Some XMLns \<Rightarrow> js ''xml:'' @ a_local a
      | Some XMLNSns \<Rightarrow>
          (if a_local a = js ''xmlns'' then js ''xmlns'' else js ''xmlns:'' @ a_local a)
      | Some XLinkns \<Rightarrow> js ''xlink:'' @ a_local a
      | Some other \<Rightarrow> qualified_name (a_prefix a) (a_local a))"

definition serialize_attribute :: "attr \<Rightarrow> jsstring" where
  "serialize_attribute a =
     js '' '' @ serialized_name a @ js ''=\"'' @ escape True (a_value a) @ js ''\"''"

definition serializes_as_void :: "element \<Rightarrow> bool" where
  "serializes_as_void e =
     in_html_any e
       [''area'', ''base'', ''br'', ''col'', ''embed'', ''hr'', ''img'', ''input'',
        ''link'', ''meta'', ''source'', ''track'', ''wbr'',
        ''basefont'', ''bgsound'', ''frame'', ''keygen'', ''param'']"

definition raw_text_parent :: "bool \<Rightarrow> element \<Rightarrow> bool" where
  "raw_text_parent scripting e =
     (in_html_any e
        [''style'', ''script'', ''xmp'', ''iframe'', ''noembed'', ''noframes'',
         ''plaintext''] \<or>
      scripting \<and> in_html e ''noscript'')"

definition start_tag :: "element \<Rightarrow> jsstring" where
  "start_tag e =
     js ''<'' @ tagname e @
     (case e_is e of
        None \<Rightarrow> []
      | Some v \<Rightarrow>
          if get_attribute ''is'' e = None
          then js '' is=\"'' @ escape True v @ js ''\"'' else []) @
     concat (map serialize_attribute (e_attributes e)) @ js ''>''"

definition end_tag :: "element \<Rightarrow> jsstring" where
  "end_tag e = js ''</'' @ tagname e @ js ''>''"

text \<open>
  \<open>serialize scripting raw n\<close> is the markup of the node \<open>n\<close>, where \<open>raw\<close> says that
  the parent of \<open>n\<close> is a raw-text element.
\<close>

fun serialize :: "bool \<Rightarrow> bool \<Rightarrow> node \<Rightarrow> jsstring" where
  "serialize scripting raw (Element e cs tc) =
     start_tag e @
     (if serializes_as_void e then []
      else (if in_html e ''template'' then concat (map (serialize False False) tc)
            else concat (map (serialize scripting (raw_text_parent scripting e)) cs)) @
           end_tag e)"
| "serialize scripting raw (Text d) = (if raw then d else escape False d)"
| "serialize scripting raw (Comment d) = js ''<!--'' @ d @ js ''-->''"
| "serialize scripting raw (ProcessingInstruction t d) = js ''<?'' @ t @ js '' '' @ d @ js ''>''"
| "serialize scripting raw (DocumentType n) = js ''<!DOCTYPE '' @ n @ js ''>''"

text \<open>The HTML fragment serialization of an element.\<close>

definition fragment :: "bool \<Rightarrow> element \<Rightarrow> node list \<Rightarrow> node list \<Rightarrow> jsstring" where
  "fragment scripting e cs tc =
     (if serializes_as_void e then []
      else if in_html e ''template'' then concat (map (serialize False False) tc)
      else concat (map (serialize scripting (raw_text_parent scripting e)) cs))"

text \<open>
  What the getter of \<^verbatim>\<open>innerHTML\<close> returns for an element (given by its data, its
  children and its template contents) is a capability of the host: a world carries
  it. In an HTML document it is the HTML fragment serialization, which never fails.
  In an XML document it is the XML serialization of the children, which fails with
  \<^verbatim>\<open>InvalidStateError\<close> when the tree is not well-formed.
\<close>

type_synonym getter = "element \<Rightarrow> node list \<Rightarrow> node list \<Rightarrow> jserror + jsstring"

definition html_markup :: getter where
  "html_markup e cs tc = Inr (fragment True e cs tc)"

text \<open>
  \<^verbatim>\<open>innerHTML\<close> is a property of elements; on another node the read gives
  \<^verbatim>\<open>undefined\<close> (\<open>None\<close>).
\<close>

fun innerHTML :: "getter \<Rightarrow> node \<Rightarrow> (jserror + jsstring) option" where
  "innerHTML g (Element e cs tc) = Some (g e cs tc)"
| "innerHTML g (Text d) = None"
| "innerHTML g (Comment d) = None"
| "innerHTML g (ProcessingInstruction tg d) = None"
| "innerHTML g (DocumentType n) = None"

text \<open>
  Reading \<^verbatim>\<open>x.innerHTML.length\<close>: on \<^verbatim>\<open>null\<close> the property read throws; where
  \<^verbatim>\<open>innerHTML\<close> is \<^verbatim>\<open>undefined\<close>, reading its \<^verbatim>\<open>length\<close> throws; an exception of
  the getter goes on.
\<close>

fun innerHTML_length :: "getter \<Rightarrow> node option \<Rightarrow> jserror + nat" where
  "innerHTML_length g None = Inl TypeError"
| "innerHTML_length g (Some n) =
     (case innerHTML g n of
        None \<Rightarrow> Inl TypeError
      | Some (Inl e) \<Rightarrow> Inl e
      | Some (Inr h) \<Rightarrow> Inr (length h))"

text \<open>Truthiness of the result of the query: \<^verbatim>\<open>null\<close> is falsy, every object is truthy.\<close>

fun ToBoolean :: "node option \<Rightarrow> bool" where
  "ToBoolean None = False"
| "ToBoolean (Some n) = True"

subsection \<open>The console and the world\<close>

datatype severity = LogLevel | ErrorLevel

datatype jsval = Str jsstring | Num nat

record diagnostic =
  level :: severity
  args :: "jsval list"

text \<open>The script contains one function expression, the handler it registers.\<close>

datatype callback = Probe

text \<open>
  The world: the document, the getter of \<^verbatim>\<open>innerHTML\<close>, the calls of the console
  made so far, the event listeners of the document, and the exceptions that left a
  script or a listener, which the host reports.
\<close>

record world =
  document :: dom
  markup :: getter
  console :: "diagnostic list"
  listeners :: "(jsstring \<times> callback) list"
  reported :: "jserror list"

definition console_log :: "jsval list \<Rightarrow> world \<Rightarrow> world" where
  "console_log xs w = w\<lparr>console := console w @ [\<lparr>level = LogLevel, args = xs\<rparr>]\<rparr>"

definition console_error :: "jsval list \<Rightarrow> world \<Rightarrow> world" where
  "console_error xs w = w\<lparr>console := console w @ [\<lparr>level = ErrorLevel, args = xs\<rparr>]\<rparr>"

section \<open>The script\<close>

text \<open>
  The body of the function registered for \<^verbatim>\<open>DOMContentLoaded\<close>. Line 5 reads the
  property \<^verbatim>\<open>querySelector\<close> of the document and calls it: when a named element
  shadows the built-in method, the call throws. A thrown exception ends the body; the
  world it returns is the world at the throw.
\<close>

definition handler :: "world \<Rightarrow> completion \<times> world" where
  "handler w0 =
     (let w1 = console_log [Str (js ''Recipe app initialized successfully'')] w0 in
      if shadowed (js ''querySelector'') (document w1) then (Throw TypeError, w1)
      else
        case querySelector (js ''main'') (document w1) of
          Inl e \<Rightarrow> (Throw e, w1)
        | Inr mainContent \<Rightarrow>
            if ToBoolean mainContent then
              (case innerHTML_length (markup w1) mainContent of
                 Inl e \<Rightarrow> (Throw e, w1)
               | Inr l \<Rightarrow>
                   (Normal,
                    console_log
                      [Str (js ''Main content found:''), Num l, Str (js ''characters'')] w1))
            else (Normal, console_error [Str (js ''Main content not found'')] w1))"

text \<open>The diagnostics the body emitted: what a run appended to the console.\<close>

definition probe_output :: "world \<Rightarrow> diagnostic list" where
  "probe_output w = drop (length (console w)) (console (snd (handler w)))"

text \<open>
  The top level of the script reads the property \<^verbatim>\<open>addEventListener\<close> of the
  document and calls it: when a named element shadows the built-in method, the script
  throws and registers nothing. No options are passed, so the listener is not a
  once-listener; the script never removes it. Each evaluation of the function
  expression gives a new function object, so the host's check for a listener already
  present never applies.
\<close>

definition addEventListener :: "jsstring \<Rightarrow> callback \<Rightarrow> world \<Rightarrow> world" where
  "addEventListener ty cb w = w\<lparr>listeners := listeners w @ [(ty, cb)]\<rparr>"

definition main_js :: "world \<Rightarrow> completion \<times> world" where
  "main_js w =
     (if shadowed (js ''addEventListener'') (document w) then (Throw TypeError, w)
      else (Normal, addEventListener (js ''DOMContentLoaded'') Probe w))"

subsection \<open>Dispatch and the life cycle of a page\<close>

text \<open>An exception that leaves a script or a listener is reported by the host.\<close>

fun settle :: "completion \<times> world \<Rightarrow> world" where
  "settle (Normal, w) = w"
| "settle (Throw e, w) = w\<lparr>reported := reported w @ [e]\<rparr>"

fun invoke :: "callback \<Rightarrow> world \<Rightarrow> world" where
  "invoke Probe w = settle (handler w)"

text \<open>
  Dispatching an event of type \<open>ty\<close> calls, in order of registration, the listeners
  registered for \<open>ty\<close> when the dispatch starts. A listener that is not a
  once-listener stays registered.
\<close>

fun run_listeners :: "jsstring \<Rightarrow> (jsstring \<times> callback) list \<Rightarrow> world \<Rightarrow> world" where
  "run_listeners ty [] w = w"
| "run_listeners ty (l # ls) w =
     (if fst l = ty then run_listeners ty ls (invoke (snd l) w) else run_listeners ty ls w)"

definition dispatchEvent :: "jsstring \<Rightarrow> world \<Rightarrow> world" where
  "dispatchEvent ty w = run_listeners ty (listeners w) w"

text \<open>
  What the host does during a page load, as far as the script sees it: the parser (or
  anything else) changes the document, the host evaluates the script, and it
  dispatches \<^verbatim>\<open>DOMContentLoaded\<close> when the document is parsed.
\<close>

datatype lifecycle = DocumentBecomes dom | ScriptEvaluated | ContentLoaded

fun step :: "lifecycle \<Rightarrow> world \<Rightarrow> world" where
  "step (DocumentBecomes d) w = w\<lparr>document := d\<rparr>"
| "step ScriptEvaluated w = settle (main_js w)"
| "step ContentLoaded w = dispatchEvent (js ''DOMContentLoaded'') w"

fun run :: "lifecycle list \<Rightarrow> world \<Rightarrow> world" where
  "run [] w = w"
| "run (x # xs) w = run xs (step x w)"

definition initial :: "getter \<Rightarrow> dom \<Rightarrow> world" where
  "initial g d =
     \<lparr>document = d, markup = g, console = [], listeners = [], reported = []\<rparr>"

text \<open>
  The usual page load: the script is evaluated once, when the document is \<open>d0\<close>; the
  document is \<open>d1\<close> when parsing ends and the event is dispatched, once.
\<close>

definition page_load :: "getter \<Rightarrow> dom \<Rightarrow> dom \<Rightarrow> world" where
  "page_load g d0 d1 = run [ScriptEvaluated, DocumentBecomes d1, ContentLoaded] (initial g d0)"

text \<open>Running the body \<open>n\<close> times in a row.\<close>

fun repeat_handler :: "nat \<Rightarrow> world \<Rightarrow> world" where
  "repeat_handler 0 w = w"
| "repeat_handler (Suc n) w = repeat_handler n (snd (handler w))"

section \<open>Vocabulary of the properties\<close>

text \<open>The three diagnostics of the script.\<close>

definition init_diag :: diagnostic where
  "init_diag = \<lparr>level = LogLevel, args = [Str (js ''Recipe app initialized successfully'')]\<rparr>"

definition found_diag :: "nat \<Rightarrow> diagnostic" where
  "found_diag l =
     \<lparr>level = LogLevel,
      args = [Str (js ''Main content found:''), Num l, Str (js ''characters'')]\<rparr>"

definition missing_diag :: diagnostic where
  "missing_diag = \<lparr>level = ErrorLevel, args = [Str (js ''Main content not found'')]\<rparr>"

text \<open>
  An informational diagnostic that contains the number \<open>l\<close>; an informational
  diagnostic about a length (one that contains a number); an error-level diagnostic.
\<close>

definition reports_length :: "nat \<Rightarrow> diagnostic \<Rightarrow> bool" where
  "reports_length l d = (level d = LogLevel \<and> Num l \<in> set (args d))"

fun is_Num :: "jsval \<Rightarrow> bool" where
  "is_Num (Num n) = True"
| "is_Num (Str s) = False"

definition about_length :: "diagnostic \<Rightarrow> bool" where
  "about_length d = (level d = LogLevel \<and> list_ex is_Num (args d))"

definition is_error :: "diagnostic \<Rightarrow> bool" where
  "is_error d = (level d = ErrorLevel)"

text \<open>
  The facts about a document that the body reads: whether a named element shadows
  \<^verbatim>\<open>document.querySelector\<close>; whether the document has an element with the tag
  \<^verbatim>\<open>main\<close>; and what reading the length of the inner markup of the first such
  element, in tree order, gives (the length, or an exception).
\<close>

definition facts_of :: "getter \<Rightarrow> dom \<Rightarrow> bool \<times> (jserror + nat) option" where
  "facts_of g d =
     (shadowed (js ''querySelector'') d,
      case querySelectorAll (js ''main'') d of
        [] \<Rightarrow> None
      | m # ms \<Rightarrow> Some (innerHTML_length g (Some m)))"

definition probe_facts :: "world \<Rightarrow> bool \<times> (jserror + nat) option" where
  "probe_facts w = facts_of (markup w) (document w)"

text \<open>
  The two facts of the document that concern the \<^verbatim>\<open>main\<close> element alone: whether one
  exists, and the length of the inner markup of the first.
\<close>

definition main_facts :: "world \<Rightarrow> (jserror + nat) option" where
  "main_facts w = snd (probe_facts w)"

text \<open>How a run ends and what it emits, for each value of the facts.\<close>

fun expected :: "bool \<times> (jserror + nat) option \<Rightarrow> completion \<times> diagnostic list" where
  "expected (True, f) = (Throw TypeError, [init_diag])"
| "expected (False, None) = (Normal, [init_diag, missing_diag])"
| "expected (False, Some (Inr l)) = (Normal, [init_diag, found_diag l])"
| "expected (False, Some (Inl e)) = (Throw e, [init_diag])"

text \<open>How often the body ran: it logs its first message once per run.\<close>

definition body_runs :: "world \<Rightarrow> nat" where
  "body_runs w = length (filter (\<lambda>d. d = init_diag) (console w))"

subsection \<open>Example documents\<close>

definition attribute :: "string \<Rightarrow> jsstring \<Rightarrow> attr" where
  "attribute name v = \<lparr>a_namespace = None, a_prefix = None, a_local = js name, a_value = v\<rparr>"

definition html_info :: "string \<Rightarrow> attr list \<Rightarrow> element" where
  "html_info name as =
     \<lparr>e_namespace = Some HTMLns, e_prefix = None, e_local = js name, e_attributes = as,
      e_is = None, e_fallback = False\<rparr>"

definition html_element :: "string \<Rightarrow> attr list \<Rightarrow> node list \<Rightarrow> node" where
  "html_element name as cs = Element (html_info name as) cs []"

definition svg_element :: "string \<Rightarrow> attr list \<Rightarrow> node list \<Rightarrow> node" where
  "svg_element name as cs =
     Element \<lparr>e_namespace = Some SVGns, e_prefix = None, e_local = js name,
              e_attributes = as, e_is = None, e_fallback = False\<rparr> cs []"

definition soup_main :: node where
  "soup_main = html_element ''main'' [] [html_element ''p'' [] [Text (js ''Soup'')]]"

definition soup_page :: dom where
  "soup_page =
     [DocumentType (js ''html''),
      html_element ''html'' []
        [html_element ''head'' [] [html_element ''title'' [] [Text (js ''Recipes'')]],
         html_element ''body'' [] [soup_main]]]"

definition hello_main :: node where
  "hello_main = html_element ''main'' [] [Text (js ''Hello'')]"

definition hello_page :: dom where
  "hello_page = [hello_main]"

definition bare_page :: dom where
  "bare_page =
     [html_element ''html'' []
        [html_element ''body'' [] [html_element ''div'' [] [Text (js ''Soup'')]]]]"

definition first_main :: node where
  "first_main = html_element ''main'' [] [Text (js ''a'')]"

definition second_main :: node where
  "second_main = html_element ''main'' [attribute ''hidden'' []] [Text (js ''bc'')]"

definition two_mains_page :: dom where
  "two_mains_page = [html_element ''body'' [] [first_main, second_main]]"

definition world_page :: dom where
  "world_page =
     [Comment (js ''recipes''),
      html_element ''body'' []
        [html_element ''main'' [attribute ''class'' (js ''wide'')] [Text (js ''World'')]]]"

text \<open>Pages with a named element that shadows a method of the document.\<close>

definition query_form :: node where
  "query_form = html_element ''form'' [attribute ''name'' (js ''querySelector'')] []"

definition shadowed_hello_page :: dom where
  "shadowed_hello_page = [query_form, hello_main]"

definition shadowed_bare_page :: dom where
  "shadowed_bare_page = [html_element ''body'' [] [query_form]]"

definition shadowed_two_mains_page :: dom where
  "shadowed_two_mains_page = [html_element ''body'' [] [query_form, first_main, second_main]]"

definition unregistered_bare_page :: dom where
  "unregistered_bare_page =
     [html_element ''img'' [attribute ''name'' (js ''addEventListener'')] []]"

definition unregistered_page :: dom where
  "unregistered_page =
     [html_element ''img'' [attribute ''name'' (js ''addEventListener'')] [], hello_main]"

text \<open>Elements that do and do not give the document the named property \<open>n\<close>.\<close>

definition object_info :: "attr list \<Rightarrow> bool \<Rightarrow> element" where
  "object_info as fallback = (html_info ''object'' as)\<lparr>e_fallback := fallback\<rparr>"

definition named_object :: "string \<Rightarrow> node" where
  "named_object n = Element (object_info [attribute ''id'' (js n)] False) [] []"

definition fallback_object :: "string \<Rightarrow> node" where
  "fallback_object n =
     Element (object_info [attribute ''name'' (js ''outer'')] True)
       [html_element ''embed'' [attribute ''name'' (js n)] []] []"

definition nested_embed :: "string \<Rightarrow> node" where
  "nested_embed n =
     Element (object_info [] False) [html_element ''embed'' [attribute ''name'' (js n)] []] []"

definition id_image :: "string \<Rightarrow> jsstring \<Rightarrow> node" where
  "id_image n name =
     html_element ''img'' [attribute ''id'' (js n), attribute ''name'' name] []"

definition template_form :: "string \<Rightarrow> node" where
  "template_form n =
     Element (html_info ''template'' []) []
       [html_element ''form'' [attribute ''name'' (js n)] []]"





text \<open>The getter of an XML document whose tree has no well-formed serialization.\<close>

definition failing_xml :: getter where
  "failing_xml e cs tc = Inl InvalidStateError"

section \<open>The query finds the first match in tree order\<close>

lemma find_append_case:
  "find P (xs @ ys) = (case find P xs of None \<Rightarrow> find P ys | Some x \<Rightarrow> Some x)"
  by (induction xs) auto

lemma find_filter_case:
  "find P xs = (case filter P xs of [] \<Rightarrow> None | x # ys \<Rightarrow> Some x)"
  by (induction xs) auto

lemma first_in_find:
  "first_in_node t n = find (matches_type t) (preorder n)"
  "first_in_nodes t ns = find (matches_type t) (concat (map preorder ns))"
  by (induction t n and t ns rule: first_in_node_first_in_nodes.induct)
     (auto simp: find_append_case split: option.splits)

lemma first_in_nodes_all:
  "first_in_nodes t d = (case querySelectorAll t d of [] \<Rightarrow> None | m # ms \<Rightarrow> Some m)"
  by (simp add: first_in_find querySelectorAll_def descendants_def find_filter_case)

lemma matches_type_Element:
  "matches_type t m \<Longrightarrow> \<exists>e cs tc. m = Element e cs tc \<and> e_local e = t"
  by (cases m) auto

lemma querySelectorAll_head:
  assumes "querySelectorAll t d = m # ms"
  shows "\<exists>e cs tc. m = Element e cs tc \<and> e_local e = t"
proof -
  have "m \<in> set (querySelectorAll t d)" using assms by simp
  then have "matches_type t m" by (simp add: querySelectorAll_def)
  then show ?thesis by (rule matches_type_Element)
qed

lemma shadowed_examples:
  "shadowed (js ''querySelector'') [query_form]"
  "shadowed (js ''querySelector'') [html_element ''div'' [] [named_object ''querySelector'']]"
  "shadowed (js ''querySelector'') [fallback_object ''querySelector'']"
  "\<not> shadowed (js ''outer'') [fallback_object ''querySelector'']"
  "\<not> shadowed (js ''querySelector'') [nested_embed ''querySelector'']"
  "shadowed (js ''querySelector'') [id_image ''querySelector'' (js ''pic'')]"
  "\<not> shadowed (js ''querySelector'') [id_image ''querySelector'' []]"
  "\<not> shadowed (js ''querySelector'') [template_form ''querySelector'']"
  "\<not> shadowed (js ''querySelector'') [svg_element ''form'' [attribute ''name'' (js ''querySelector'')] []]"
  "\<not> shadowed (js ''querySelector'') [html_element ''div'' [attribute ''name'' (js ''querySelector'')] []]"
  "\<not> shadowed (js ''addEventListener'') [query_form]"
  by code_simp+

lemma js_main_nonempty: "js ''main'' \<noteq> []"
  by (simp add: js_def)

lemma querySelector_main:
  "querySelector (js ''main'') d =
     Inr (case querySelectorAll (js ''main'') d of [] \<Rightarrow> None | m # ms \<Rightarrow> Some m)"
  by (simp add: querySelector_def js_main_nonempty first_in_nodes_all)

section \<open>What the getter returns\<close>


lemma innerHTML_length_html:
  "innerHTML_length html_markup (Some (Element e cs tc)) = Inr (length (fragment True e cs tc))"
  by (simp add: html_markup_def)

lemma innerHTML_length_Inr:
  "innerHTML g m = Some (Inr h) \<Longrightarrow> innerHTML_length g (Some m) = Inr (length h)"
  by simp

lemma innerHTML_length_Inl:
  "innerHTML g m = Some (Inl e) \<Longrightarrow> innerHTML_length g (Some m) = Inl e"
  by simp

section \<open>What one run of the body does\<close>

lemma facts_of_empty:
  "querySelectorAll (js ''main'') d = [] \<Longrightarrow> facts_of g d = (shadowed (js ''querySelector'') d, None)"
  by (simp add: facts_of_def)

lemma facts_of_first:
  "querySelectorAll (js ''main'') d = m # ms \<Longrightarrow>
   facts_of g d = (shadowed (js ''querySelector'') d, Some (innerHTML_length g (Some m)))"
  by (simp add: facts_of_def)

lemma handler_eq:
  "handler w =
     (fst (expected (probe_facts w)),
      w\<lparr>console := console w @ snd (expected (probe_facts w))\<rparr>)"
proof (cases "shadowed (js ''querySelector'') (document w)")
  case True
  then have "probe_facts w = (True, snd (probe_facts w))"
    by (simp add: probe_facts_def facts_of_def)
  then have e: "expected (probe_facts w) = (Throw TypeError, [init_diag])"
    by (metis expected.simps(1))
  show ?thesis
    using True by (simp add: e handler_def console_log_def init_diag_def)
next
  case False
  show ?thesis
  proof (cases "querySelectorAll (js ''main'') (document w)")
    case Nil
    then have q: "first_in_nodes (js ''main'') (document w) = None"
      by (simp add: first_in_nodes_all)
    have e: "expected (probe_facts w) = (Normal, [init_diag, missing_diag])"
      using False Nil by (simp add: probe_facts_def facts_of_empty)
    show ?thesis
      using False
      by (simp add: e handler_def querySelector_def js_main_nonempty console_log_def
          console_error_def q init_diag_def missing_diag_def)
  next
    case (Cons m ms)
    then have q: "first_in_nodes (js ''main'') (document w) = Some m"
      by (simp add: first_in_nodes_all)
    have f: "probe_facts w = (False, Some (innerHTML_length (markup w) (Some m)))"
      using False Cons by (simp add: probe_facts_def facts_of_first)
    show ?thesis
    proof (cases "innerHTML_length (markup w) (Some m)")
      case (Inl x)
      then have e: "expected (probe_facts w) = (Throw x, [init_diag])"
        by (simp add: f)
      show ?thesis
        using False Inl
        by (simp add: e handler_def querySelector_def js_main_nonempty console_log_def
            q init_diag_def del: innerHTML_length.simps)
    next
      case (Inr l)
      then have e: "expected (probe_facts w) = (Normal, [init_diag, found_diag l])"
        by (simp add: f)
      show ?thesis
        using False Inr
        by (simp add: e handler_def querySelector_def js_main_nonempty console_log_def
            q init_diag_def found_diag_def del: innerHTML_length.simps)
    qed
  qed
qed

lemma probe_output_eq: "probe_output w = snd (expected (probe_facts w))"
  by (simp add: probe_output_def handler_eq)

lemma completion_eq: "fst (handler w) = fst (expected (probe_facts w))"
  by (simp add: handler_eq)

lemma init_not_found: "init_diag \<noteq> found_diag l"
  by (simp add: init_diag_def found_diag_def)

lemma init_not_missing: "init_diag \<noteq> missing_diag"
  by (simp add: init_diag_def missing_diag_def)

lemma reports_length_init: "\<not> reports_length l init_diag"
  by (simp add: reports_length_def init_diag_def)

lemma reports_length_found: "reports_length l (found_diag l)"
  by (simp add: reports_length_def found_diag_def)

lemma is_error_simps:
  "\<not> is_error init_diag" "is_error missing_diag" "\<not> is_error (found_diag l)"
  by (simp_all add: is_error_def init_diag_def missing_diag_def found_diag_def)

lemma about_length_simps:
  "\<not> about_length init_diag" "\<not> about_length missing_diag" "about_length (found_diag l)"
  by (simp_all add: about_length_def init_diag_def missing_diag_def found_diag_def)

lemma expected_cases:
  "expected f = (Throw TypeError, [init_diag]) \<or>
   expected f = (Normal, [init_diag, missing_diag]) \<or>
   (\<exists>l. expected f = (Normal, [init_diag, found_diag l])) \<or>
   (\<exists>e. expected f = (Throw e, [init_diag]))"
  by (cases f rule: expected.cases) auto

lemma body_runs_expected:
  "length (filter (\<lambda>d. d = init_diag) (snd (expected f))) = 1"
  using init_not_missing init_not_found expected_cases [of f]
  by (auto simp: eq_commute [of _ init_diag])

lemma html_completes:
  assumes "\<not> shadowed (js ''querySelector'') (document w)"
    and "markup w = html_markup"
  shows "fst (handler w) = Normal"
proof (cases "querySelectorAll (js ''main'') (document w)")
  case Nil
  then show ?thesis
    using assms(1) by (simp add: completion_eq probe_facts_def facts_of_empty)
next
  case (Cons m ms)
  obtain e cs tc where "m = Element e cs tc"
    using querySelectorAll_head [OF Cons] by blast
  then show ?thesis
    using assms facts_of_first [OF Cons, of html_markup]
    by (simp add: completion_eq probe_facts_def html_markup_def)
qed

lemma shadowed_throws:
  assumes "shadowed (js ''querySelector'') (document w)"
  shows "expected (probe_facts w) = (Throw TypeError, [init_diag])"
proof -
  have "probe_facts w = (True, snd (probe_facts w))"
    using assms by (simp add: probe_facts_def facts_of_def)
  then show ?thesis
    by (metis expected.simps(1))
qed


section \<open>The life cycle\<close>

lemma settle_handler:
  "settle (handler w) =
     (case fst (expected (probe_facts w)) of
        Normal \<Rightarrow> w\<lparr>console := console w @ snd (expected (probe_facts w))\<rparr>
      | Throw e \<Rightarrow>
          w\<lparr>console := console w @ snd (expected (probe_facts w)),
            reported := reported w @ [e]\<rparr>)"
  by (simp add: handler_eq split: completion.splits)

lemma invoke_effect:
  "listeners (invoke Probe w) = listeners w"
  "document (invoke Probe w) = document w"
  "markup (invoke Probe w) = markup w"
  "console (invoke Probe w) = console w @ snd (expected (probe_facts w))"
  "body_runs (invoke Probe w) = Suc (body_runs w)"
  by (simp_all add: settle_handler body_runs_def body_runs_expected split: completion.splits)

lemma page_load_console:
  "console (page_load g d0 d1) =
     (if shadowed (js ''addEventListener'') d0 then [] else snd (expected (facts_of g d1)))"
  by (simp add: page_load_def initial_def main_js_def addEventListener_def dispatchEvent_def
      settle_handler probe_facts_def split: completion.splits)



lemma repeat_handler_document: "document (repeat_handler n w) = document w"
proof (induction n arbitrary: w)
  case 0
  show ?case by simp
next
  case (Suc n)
  have "document (snd (handler w)) = document w"
    by (simp add: handler_eq)
  with Suc [of "snd (handler w)"] show ?case by simp
qed

lemma run_listeners_replicate:
  "listeners (run_listeners ty (replicate j (ty, Probe)) w) = listeners w \<and>
   body_runs (run_listeners ty (replicate j (ty, Probe)) w) = body_runs w + j"
proof (induction j arbitrary: w)
  case 0
  show ?case by simp
next
  case (Suc j)
  from Suc [of "invoke Probe w"] show ?case
    by (simp add: invoke_effect del: invoke.simps)
qed

lemma dispatch_replicate:
  assumes "listeners w = replicate k (ty, Probe)"
  shows "listeners (dispatchEvent ty w) = replicate k (ty, Probe)"
    and "body_runs (dispatchEvent ty w) = body_runs w + k"
  using assms run_listeners_replicate [of ty k w] by (simp_all add: dispatchEvent_def)

lemma step_effect:
  assumes "listeners w = replicate k (js ''DOMContentLoaded'', Probe)"
  shows "\<exists>k'. listeners (step x w) = replicate k' (js ''DOMContentLoaded'', Probe) \<and>
    k \<le> k' \<and> k' \<le> k + count_list [x] ScriptEvaluated \<and>
    body_runs (step x w) = body_runs w + k * count_list [x] ContentLoaded"
proof (cases x)
  case (DocumentBecomes d)
  then show ?thesis
    using assms by (simp add: body_runs_def)
next
  case ScriptEvaluated
  show ?thesis
  proof (cases "shadowed (js ''addEventListener'') (document w)")
    case True
    with ScriptEvaluated assms show ?thesis
      by (simp add: main_js_def body_runs_def)
  next
    case False
    with ScriptEvaluated assms have
      "listeners (step x w) = replicate (Suc k) (js ''DOMContentLoaded'', Probe)"
      "body_runs (step x w) = body_runs w"
      by (simp_all add: main_js_def addEventListener_def body_runs_def replicate_append_same)
    with ScriptEvaluated show ?thesis by (intro exI [of _ "Suc k"]) simp
  qed
next
  case ContentLoaded
  then show ?thesis
    using dispatch_replicate [OF assms] by auto
qed

lemma run_effect:
  assumes "listeners w = replicate k (js ''DOMContentLoaded'', Probe)"
  shows "\<exists>k'. listeners (run tr w) = replicate k' (js ''DOMContentLoaded'', Probe) \<and>
    k' \<le> k + count_list tr ScriptEvaluated \<and>
    body_runs (run tr w) \<le>
      body_runs w + (k + count_list tr ScriptEvaluated) * count_list tr ContentLoaded"
  using assms
proof (induction tr arbitrary: w k)
  case Nil
  then show ?case by auto
next
  case (Cons x xs)
  obtain k1 where k1:
    "listeners (step x w) = replicate k1 (js ''DOMContentLoaded'', Probe)"
    "k \<le> k1" "k1 \<le> k + count_list [x] ScriptEvaluated"
    "body_runs (step x w) = body_runs w + k * count_list [x] ContentLoaded"
    using step_effect [OF Cons.prems, of x] by blast
  obtain k2 where k2:
    "listeners (run xs (step x w)) = replicate k2 (js ''DOMContentLoaded'', Probe)"
    "k2 \<le> k1 + count_list xs ScriptEvaluated"
    "body_runs (run xs (step x w)) \<le>
       body_runs (step x w) + (k1 + count_list xs ScriptEvaluated) * count_list xs ContentLoaded"
    using Cons.IH [OF k1(1)] by blast
  have m: "(k1 + count_list xs ScriptEvaluated) * count_list xs ContentLoaded \<le>
           (k + count_list (x # xs) ScriptEvaluated) * count_list xs ContentLoaded"
    using k1(3) by (intro mult_le_mono1) (auto split: if_splits)
  have b: "body_runs (run (x # xs) w) \<le>
           body_runs w + (k + count_list (x # xs) ScriptEvaluated) * count_list (x # xs) ContentLoaded"
  proof (cases "x = ContentLoaded")
    case True
    define a where "a = count_list xs ScriptEvaluated"
    define c where "c = count_list xs ContentLoaded"
    have s1: "body_runs (step x w) = body_runs w + k"
      using k1(4) True by simp
    have s2: "body_runs (run xs (step x w)) \<le> body_runs (step x w) + (k1 + a) * c"
      using k2(3) by (simp add: a_def c_def)
    have "k1 + a \<le> k + a"
      using k1(3) True by simp
    then have "(k1 + a) * c \<le> (k + a) * c"
      by (rule mult_le_mono1)
    with s1 s2 have "body_runs (run xs (step x w)) \<le> body_runs w + k + (k + a) * c"
      by linarith
    also have "\<dots> \<le> body_runs w + (k + a) * Suc c"
      by simp
    finally show ?thesis
      using True by (simp add: a_def c_def)
  next
    case False
    have s1: "body_runs (step x w) = body_runs w"
      using k1(4) False by simp
    have r: "run (x # xs) w = run xs (step x w)"
      by simp
    have cc: "count_list (x # xs) ContentLoaded = count_list xs ContentLoaded"
      using False by simp
    show ?thesis
      unfolding r cc using s1 k2(3) m by linarith
  qed
  have "k2 \<le> k + count_list (x # xs) ScriptEvaluated"
    using k1(3) k2(2) by (auto split: if_splits)
  with k2(1) b show ?case by (intro exI [of _ k2]) simp
qed

lemma further_dispatches:
  assumes "listeners w = [(js ''DOMContentLoaded'', Probe)]"
  shows "listeners (run (replicate k ContentLoaded) w) = [(js ''DOMContentLoaded'', Probe)] \<and>
         body_runs (run (replicate k ContentLoaded) w) = body_runs w + k"
  using assms
proof (induction k arbitrary: w)
  case 0
  then show ?case by simp
next
  case (Suc k)
  have l: "listeners w = replicate 1 (js ''DOMContentLoaded'', Probe)"
    using Suc.prems by simp
  have "listeners (dispatchEvent (js ''DOMContentLoaded'') w) = [(js ''DOMContentLoaded'', Probe)]"
    "body_runs (dispatchEvent (js ''DOMContentLoaded'') w) = body_runs w + 1"
    using dispatch_replicate [OF l] by simp_all
  with Suc.IH [of "dispatchEvent (js ''DOMContentLoaded'') w"] show ?case by simp
qed

lemma registered:
  assumes "\<not> shadowed (js ''addEventListener'') d0"
  shows "listeners (run [ScriptEvaluated, DocumentBecomes d1] (initial g d0)) =
           [(js ''DOMContentLoaded'', Probe)]"
    and "body_runs (run [ScriptEvaluated, DocumentBecomes d1] (initial g d0)) = 0"
  using assms by (simp_all add: main_js_def addEventListener_def initial_def body_runs_def)


section \<open>The claims\<close>

text \<open>
  C1 (as amended). For every page load in which the script is evaluated once, before
  \<^verbatim>\<open>DOMContentLoaded\<close> is dispatched once, no named element shadows
  \<^verbatim>\<open>document.addEventListener\<close> when the script is evaluated or
  \<^verbatim>\<open>document.querySelector\<close> when the event is dispatched, and the first element
  with the tag \<^verbatim>\<open>main\<close>, in tree order, then has serialized inner markup of length
  \<open>L\<close> (any \<open>L \<ge> 0\<close>), the probe emits exactly one informational diagnostic that
  contains the value \<open>L\<close>.
\<close>

theorem first_main_length_reported:
  assumes "\<not> shadowed (js ''addEventListener'') d0"
    and "\<not> shadowed (js ''querySelector'') d1"
    and "querySelectorAll (js ''main'') d1 = m # ms"
    and "innerHTML g m = Some (Inr h)"
  shows "length (filter (reports_length (length h)) (console (page_load g d0 d1))) = 1"
proof -
  have "facts_of g d1 = (False, Some (Inr (length h)))"
    using assms(2) facts_of_first [OF assms(3), of g] innerHTML_length_Inr [OF assms(4)]
    by simp
  then have "console (page_load g d0 d1) = [init_diag, found_diag (length h)]"
    using assms(1) by (simp add: page_load_console)
  then show ?thesis
    by (simp add: reports_length_init reports_length_found)
qed

theorem first_main_length_reported_witness:
  "\<not> shadowed (js ''addEventListener'') bare_page \<and>
   \<not> shadowed (js ''querySelector'') soup_page \<and>
   querySelectorAll (js ''main'') soup_page = [soup_main] \<and>
   innerHTML html_markup soup_main = Some (Inr (js ''<p>Soup</p>'')) \<and>
   length (filter (reports_length (length (js ''<p>Soup</p>'')))
     (console (page_load html_markup bare_page soup_page))) = 1"
proof -
  have a: "\<not> shadowed (js ''addEventListener'') bare_page"
    by code_simp
  have b: "\<not> shadowed (js ''querySelector'') soup_page"
    by code_simp
  have q: "querySelectorAll (js ''main'') soup_page = soup_main # []"
    by code_simp
  have h: "innerHTML html_markup soup_main = Some (Inr (js ''<p>Soup</p>''))"
    by code_simp
  show ?thesis
    using a b q h first_main_length_reported [OF a b q h] by simp
qed

text \<open>
  C1 as written speaks of every page load and of any element with the tag
  \<^verbatim>\<open>main\<close>. In a document with two such elements whose inner markup has the lengths
  1 and 2, an element of length 2 exists and no informational diagnostic contains 2:
  the query returns the first element and the probe reports 1. On a page with
  \<^verbatim>\<open><form name="querySelector">\<close> the body throws after its first message and
  reports no length; with \<^verbatim>\<open><img name="addEventListener">\<close> the script registers
  nothing; a script evaluated after the event logs nothing.
\<close>

theorem later_main_length_not_reported:
  "second_main \<in> set (querySelectorAll (js ''main'') two_mains_page) \<and>
   innerHTML html_markup second_main = Some (Inr (js ''bc'')) \<and>
   length (js ''bc'') = 2 \<and>
   console (page_load html_markup two_mains_page two_mains_page) =
     [init_diag, found_diag 1] \<and>
   length (filter (reports_length 2) [init_diag, found_diag 1]) = 0 \<and>
   querySelectorAll (js ''main'') shadowed_hello_page = [hello_main] \<and>
   innerHTML html_markup hello_main = Some (Inr (js ''Hello'')) \<and>
   console (page_load html_markup shadowed_hello_page shadowed_hello_page) = [init_diag] \<and>
   console (page_load html_markup unregistered_page unregistered_page) = [] \<and>
   console (run [ContentLoaded, ScriptEvaluated] (initial html_markup hello_page)) = []"
  by code_simp

text \<open>
  C2 (as amended). For every page load in which the script is evaluated once, before
  \<^verbatim>\<open>DOMContentLoaded\<close> is dispatched once, no named element shadows
  \<^verbatim>\<open>document.addEventListener\<close> when the script is evaluated or
  \<^verbatim>\<open>document.querySelector\<close> when the event is dispatched, and no element with the
  tag \<^verbatim>\<open>main\<close> exists, the probe emits exactly one error-level diagnostic and no
  informational diagnostic about a content length.
\<close>

theorem no_main_reported_as_error:
  assumes "\<not> shadowed (js ''addEventListener'') d0"
    and "\<not> shadowed (js ''querySelector'') d1"
    and "querySelectorAll (js ''main'') d1 = []"
  shows "console (page_load g d0 d1) = [init_diag, missing_diag] \<and>
         length (filter is_error (console (page_load g d0 d1))) = 1 \<and>
         length (filter about_length (console (page_load g d0 d1))) = 0"
proof -
  have "facts_of g d1 = (False, None)"
    using assms(2) facts_of_empty [OF assms(3), of g] by simp
  then have "console (page_load g d0 d1) = [init_diag, missing_diag]"
    using assms(1) by (simp add: page_load_console)
  then show ?thesis
    by (simp add: is_error_simps about_length_simps)
qed

theorem no_main_reported_as_error_witness:
  "\<not> shadowed (js ''addEventListener'') bare_page \<and>
   \<not> shadowed (js ''querySelector'') bare_page \<and>
   querySelectorAll (js ''main'') bare_page = [] \<and>
   console (page_load html_markup bare_page bare_page) = [init_diag, missing_diag] \<and>
   length (filter is_error (console (page_load html_markup bare_page bare_page))) = 1 \<and>
   length (filter about_length (console (page_load html_markup bare_page bare_page))) = 0"
proof -
  have a: "\<not> shadowed (js ''addEventListener'') bare_page"
    by code_simp
  have b: "\<not> shadowed (js ''querySelector'') bare_page"
    by code_simp
  have q: "querySelectorAll (js ''main'') bare_page = []"
    by code_simp
  show ?thesis
    using a b q no_main_reported_as_error [OF a b q, of html_markup] by blast
qed

text \<open>
  C2 as written speaks of every page load without an element with the tag
  \<^verbatim>\<open>main\<close>. On such a page with \<^verbatim>\<open><form name="querySelector">\<close> the body throws
  before it reaches \<^verbatim>\<open>console.error\<close>: the probe emits no error-level diagnostic
  (the host reports the exception). With \<^verbatim>\<open><img name="addEventListener">\<close>, or a
  script evaluated after the event, nothing is emitted.
\<close>

theorem shadowed_query_no_error_diagnostic:
  "querySelectorAll (js ''main'') shadowed_bare_page = [] \<and>
   console (page_load html_markup shadowed_bare_page shadowed_bare_page) = [init_diag] \<and>
   reported (page_load html_markup shadowed_bare_page shadowed_bare_page) = [TypeError] \<and>
   length (filter is_error [init_diag]) = 0 \<and>
   querySelectorAll (js ''main'') unregistered_bare_page = [] \<and>
   console (page_load html_markup unregistered_bare_page unregistered_bare_page) = [] \<and>
   querySelectorAll (js ''main'') bare_page = [] \<and>
   console (run [ContentLoaded, ScriptEvaluated] (initial html_markup bare_page)) = []"
  by code_simp




text \<open>
  C4 (as amended). On every page load in which the script is evaluated once, before
  \<^verbatim>\<open>DOMContentLoaded\<close> is dispatched once, and no named element shadows
  \<^verbatim>\<open>document.addEventListener\<close> when the script is evaluated, the probe emits its
  initialization diagnostic exactly once, whether the element with the tag \<^verbatim>\<open>main\<close>
  is present or absent and whether or not the body ends with an exception, and it is
  emitted before any outcome diagnostic: the diagnostics start with it.
\<close>

theorem init_diagnostic_once_and_first:
  assumes "\<not> shadowed (js ''addEventListener'') d0"
  shows "length (filter (\<lambda>d. d = init_diag) (console (page_load g d0 d1))) = 1 \<and>
         take 1 (console (page_load g d0 d1)) = [init_diag]"
proof -
  have c: "console (page_load g d0 d1) = snd (expected (facts_of g d1))"
    using assms by (simp add: page_load_console)
  have "take 1 (snd (expected f)) = [init_diag]" for f
    using expected_cases [of f] by auto
  with c show ?thesis
    by (simp add: body_runs_expected)
qed

theorem init_diagnostic_once_and_first_witness:
  "\<not> shadowed (js ''addEventListener'') bare_page \<and>
   length (filter (\<lambda>d. d = init_diag)
     (console (page_load html_markup bare_page shadowed_hello_page))) = 1 \<and>
   take 1 (console (page_load html_markup bare_page shadowed_hello_page)) = [init_diag]"
proof -
  have a: "\<not> shadowed (js ''addEventListener'') bare_page"
    by code_simp
  show ?thesis
    using a init_diagnostic_once_and_first [OF a, of html_markup shadowed_hello_page] by blast
qed

text \<open>
  C4 as written speaks of every page load. With \<^verbatim>\<open><img name="addEventListener">\<close>
  the script throws in its first line and registers nothing, so no diagnostic is
  emitted; a script evaluated after the event logs nothing; a script evaluated twice
  logs the initialization diagnostic twice.
\<close>

theorem init_missing_or_repeated:
  "console (page_load html_markup unregistered_page unregistered_page) = [] \<and>
   reported (page_load html_markup unregistered_page unregistered_page) = [TypeError] \<and>
   console (run [ContentLoaded, ScriptEvaluated] (initial html_markup hello_page)) = [] \<and>
   console (run [ScriptEvaluated, ScriptEvaluated, ContentLoaded] (initial html_markup hello_page)) =
     [init_diag, found_diag 5, init_diag, found_diag 5]"
  by code_simp




text \<open>
  C6. The body never changes the document: for every world, the document after a run
  is the document before it, whether the run completes or throws, and running the body
  \<open>n\<close> times leaves the document as it was.
\<close>

theorem document_never_changed:
  "document (snd (handler w)) = document w \<and> document (repeat_handler n w) = document w"
  by (simp add: handler_eq repeat_handler_document)

theorem document_never_changed_witness:
  "document (snd (handler (initial html_markup soup_page))) = soup_page \<and>
   document (repeat_handler 3 (initial html_markup shadowed_hello_page)) = shadowed_hello_page"
  using document_never_changed [of "initial html_markup soup_page" 0]
    document_never_changed [of "initial html_markup shadowed_hello_page" 3]
  by (simp add: initial_def)

text \<open>
  C7 (as amended). For every document with two or more elements with the tag
  \<^verbatim>\<open>main\<close> in which no named element shadows \<^verbatim>\<open>document.querySelector\<close>, the
  body reports on the first one only: the query yields that single element, and the one
  length reported is the length of its serialized inner markup.
\<close>

theorem first_of_several_mains_reported:
  assumes "\<not> shadowed (js ''querySelector'') (document w)"
    and "querySelectorAll (js ''main'') (document w) = m # ms"
    and "ms \<noteq> []"
    and "innerHTML (markup w) m = Some (Inr h)"
  shows "querySelector (js ''main'') (document w) = Inr (Some m) \<and>
         fst (handler w) = Normal \<and>
         probe_output w = [init_diag, found_diag (length h)]"
proof -
  have "querySelector (js ''main'') (document w) = Inr (Some m)"
    using assms(2) by (simp add: querySelector_main)
  moreover have "probe_facts w = (False, Some (Inr (length h)))"
    using assms(1) facts_of_first [OF assms(2)] innerHTML_length_Inr [OF assms(4)]
    by (simp add: probe_facts_def)
  ultimately show ?thesis
    by (simp add: probe_output_eq completion_eq)
qed

theorem first_of_several_mains_reported_witness:
  "\<not> shadowed (js ''querySelector'') (document (initial html_markup two_mains_page)) \<and>
   querySelectorAll (js ''main'') (document (initial html_markup two_mains_page)) =
     [first_main, second_main] \<and>
   innerHTML (markup (initial html_markup two_mains_page)) first_main =
     Some (Inr (js ''a'')) \<and>
   querySelector (js ''main'') (document (initial html_markup two_mains_page)) =
     Inr (Some first_main) \<and>
   probe_output (initial html_markup two_mains_page) = [init_diag, found_diag 1]"
proof -
  have a: "\<not> shadowed (js ''querySelector'') (document (initial html_markup two_mains_page))"
    by code_simp
  have q: "querySelectorAll (js ''main'') (document (initial html_markup two_mains_page)) =
             first_main # [second_main]"
    by code_simp
  have n: "[second_main] \<noteq> []"
    by simp
  have i: "innerHTML (markup (initial html_markup two_mains_page)) first_main =
             Some (Inr (js ''a''))"
    by code_simp
  have l: "length (js ''a'') = 1"
    by (simp add: js_def)
  show ?thesis
    using a q i l first_of_several_mains_reported [OF a q n i] by simp
qed

text \<open>
  C7 as written speaks of every document with two or more such elements. When the
  document also has \<^verbatim>\<open><form name="querySelector">\<close>, the body throws and reports on
  no element.
\<close>

theorem shadowed_query_reports_no_main:
  "querySelectorAll (js ''main'') (document (initial html_markup shadowed_two_mains_page)) =
     [first_main, second_main] \<and>
   fst (handler (initial html_markup shadowed_two_mains_page)) = Throw TypeError \<and>
   probe_output (initial html_markup shadowed_two_mains_page) = [init_diag]"
  by code_simp

text \<open>
  C8 (as amended). In a page load in which the script is evaluated exactly once and
  the host dispatches \<^verbatim>\<open>DOMContentLoaded\<close> at most once (in either order, and
  whatever the documents are), the body runs at most once: it is one synchronous
  callback, it is not retried, and it registers nothing itself. The subscription is
  not one-shot: when no named element shadows \<^verbatim>\<open>document.addEventListener\<close> as the
  script is evaluated, the listener is registered without the \<^verbatim>\<open>once\<close> option and
  is never removed, so it is still registered after the event, and of \<open>k\<close> dispatches
  of the event each one runs the body once.
\<close>

theorem body_runs_at_most_once_per_load:
  "(count_list tr ScriptEvaluated = 1 \<and> count_list tr ContentLoaded \<le> 1 \<longrightarrow>
      body_runs (run tr (initial g d0)) \<le> 1) \<and>
   (\<not> shadowed (js ''addEventListener'') d0 \<longrightarrow>
      listeners (run ([ScriptEvaluated, DocumentBecomes d1] @ replicate k ContentLoaded)
                  (initial g d0)) = [(js ''DOMContentLoaded'', Probe)] \<and>
      body_runs (run ([ScriptEvaluated, DocumentBecomes d1] @ replicate k ContentLoaded)
                  (initial g d0)) = k)"
proof
  show "count_list tr ScriptEvaluated = 1 \<and> count_list tr ContentLoaded \<le> 1 \<longrightarrow>
          body_runs (run tr (initial g d0)) \<le> 1"
  proof
    assume c: "count_list tr ScriptEvaluated = 1 \<and> count_list tr ContentLoaded \<le> 1"
    have l: "listeners (initial g d0) = replicate 0 (js ''DOMContentLoaded'', Probe)"
      by (simp add: initial_def)
    have b: "body_runs (initial g d0) = 0"
      by (simp add: initial_def body_runs_def)
    from run_effect [OF l, of tr] have
      "body_runs (run tr (initial g d0)) \<le>
         body_runs (initial g d0) +
         (0 + count_list tr ScriptEvaluated) * count_list tr ContentLoaded"
      by blast
    with c b show "body_runs (run tr (initial g d0)) \<le> 1" by simp
  qed
  show "\<not> shadowed (js ''addEventListener'') d0 \<longrightarrow>
      listeners (run ([ScriptEvaluated, DocumentBecomes d1] @ replicate k ContentLoaded)
                  (initial g d0)) = [(js ''DOMContentLoaded'', Probe)] \<and>
      body_runs (run ([ScriptEvaluated, DocumentBecomes d1] @ replicate k ContentLoaded)
                  (initial g d0)) = k"
  proof
    assume a: "\<not> shadowed (js ''addEventListener'') d0"
    let ?w = "run [ScriptEvaluated, DocumentBecomes d1] (initial g d0)"
    have r: "run ([ScriptEvaluated, DocumentBecomes d1] @ replicate k ContentLoaded)
               (initial g d0) = run (replicate k ContentLoaded) ?w"
      by simp
    show "listeners (run ([ScriptEvaluated, DocumentBecomes d1] @ replicate k ContentLoaded)
                  (initial g d0)) = [(js ''DOMContentLoaded'', Probe)] \<and>
      body_runs (run ([ScriptEvaluated, DocumentBecomes d1] @ replicate k ContentLoaded)
                  (initial g d0)) = k"
    proof -
      have l: "listeners ?w = [(js ''DOMContentLoaded'', Probe)]"
        using a by (rule registered(1))
      have b: "body_runs ?w = 0"
        using a by (rule registered(2))
      from further_dispatches [OF l] b show ?thesis
        unfolding r by simp
    qed
  qed
qed

theorem body_runs_at_most_once_per_load_witness:
  "count_list [ScriptEvaluated, DocumentBecomes soup_page, ContentLoaded] ScriptEvaluated = 1 \<and>
   count_list [ScriptEvaluated, DocumentBecomes soup_page, ContentLoaded] ContentLoaded \<le> 1 \<and>
   body_runs (run [ScriptEvaluated, DocumentBecomes soup_page, ContentLoaded]
     (initial html_markup bare_page)) \<le> 1 \<and>
   \<not> shadowed (js ''addEventListener'') bare_page \<and>
   listeners (run ([ScriptEvaluated, DocumentBecomes soup_page] @ replicate 2 ContentLoaded)
     (initial html_markup bare_page)) = [(js ''DOMContentLoaded'', Probe)] \<and>
   body_runs (run ([ScriptEvaluated, DocumentBecomes soup_page] @ replicate 2 ContentLoaded)
     (initial html_markup bare_page)) = 2"
proof -
  have s: "count_list [ScriptEvaluated, DocumentBecomes soup_page, ContentLoaded]
             ScriptEvaluated = 1"
    by simp
  have c: "count_list [ScriptEvaluated, DocumentBecomes soup_page, ContentLoaded]
             ContentLoaded \<le> 1"
    by simp
  have a: "\<not> shadowed (js ''addEventListener'') bare_page"
    by code_simp
  show ?thesis
    using s c a
      body_runs_at_most_once_per_load
        [of "[ScriptEvaluated, DocumentBecomes soup_page, ContentLoaded]"
            html_markup bare_page soup_page 2]
    by blast
qed

text \<open>
  C8 as written says that no subscription is left active for a further firing, and
  speaks of every page load. After the page load the listener is still registered, and
  a second dispatch of the event runs the body a second time; a script evaluated twice
  registers two listeners, and one dispatch runs the body twice.
\<close>

theorem listener_stays_registered:
  "listeners (page_load html_markup hello_page hello_page) =
     [(js ''DOMContentLoaded'', Probe)] \<and>
   body_runs (page_load html_markup hello_page hello_page) = 1 \<and>
   body_runs (run [ScriptEvaluated, DocumentBecomes hello_page, ContentLoaded, ContentLoaded]
     (initial html_markup hello_page)) = 2 \<and>
   body_runs (run [ScriptEvaluated, ScriptEvaluated, ContentLoaded]
     (initial html_markup hello_page)) = 2"
  by code_simp

text \<open>
  C9 (as amended). Every run of the body that completes normally emits exactly two
  diagnostics: the initialization diagnostic, then exactly one outcome diagnostic,
  which is the informational one with the length when an element with the tag
  \<^verbatim>\<open>main\<close> is found and the error-level one when none is. A run in an HTML document
  in which no named element shadows \<^verbatim>\<open>document.querySelector\<close> completes normally.
  A run that throws emits the initialization diagnostic only.
\<close>

theorem exactly_two_diagnostics:
  "(fst (handler w) = Normal \<longrightarrow>
      length (probe_output w) = 2 \<and> probe_output w ! 0 = init_diag \<and>
      (querySelectorAll (js ''main'') (document w) = [] \<and> probe_output w ! 1 = missing_diag \<or>
       (\<exists>m ms h. querySelectorAll (js ''main'') (document w) = m # ms \<and>
          innerHTML (markup w) m = Some (Inr h) \<and>
          probe_output w ! 1 = found_diag (length h)))) \<and>
   (fst (handler w) \<noteq> Normal \<longrightarrow> probe_output w = [init_diag]) \<and>
   (\<not> shadowed (js ''querySelector'') (document w) \<and> markup w = html_markup \<longrightarrow>
      fst (handler w) = Normal)"
proof -
  have 3: "fst (handler w) = Normal"
    if "\<not> shadowed (js ''querySelector'') (document w)" "markup w = html_markup"
    using that by (rule html_completes)
  have 2: "probe_output w = [init_diag]" if "fst (handler w) \<noteq> Normal"
    using that expected_cases [of "probe_facts w"]
    by (auto simp: completion_eq probe_output_eq)
  have 1: "length (probe_output w) = 2 \<and> probe_output w ! 0 = init_diag \<and>
      (querySelectorAll (js ''main'') (document w) = [] \<and> probe_output w ! 1 = missing_diag \<or>
       (\<exists>m ms h. querySelectorAll (js ''main'') (document w) = m # ms \<and>
          innerHTML (markup w) m = Some (Inr h) \<and>
          probe_output w ! 1 = found_diag (length h)))"
    if n: "fst (handler w) = Normal"
  proof (cases "shadowed (js ''querySelector'') (document w)")
    case True
    with n shadowed_throws [OF True] show ?thesis
      by (simp add: completion_eq)
  next
    case False
    show ?thesis
    proof (cases "querySelectorAll (js ''main'') (document w)")
      case Nil
      with False show ?thesis
        by (simp add: probe_output_eq probe_facts_def facts_of_empty)
    next
      case (Cons m ms)
      have f: "probe_facts w = (False, Some (innerHTML_length (markup w) (Some m)))"
        using False facts_of_first [OF Cons] by (simp add: probe_facts_def)
      from n f obtain l where l: "innerHTML_length (markup w) (Some m) = Inr l"
        by (cases "innerHTML_length (markup w) (Some m)") (simp_all add: completion_eq)
      then obtain h where h: "innerHTML (markup w) m = Some (Inr h)" "l = length h"
        by (auto split: option.splits sum.splits)
      from Cons f l h show ?thesis
        by (simp add: probe_output_eq)
    qed
  qed
  from 1 2 3 show ?thesis by blast
qed

theorem exactly_two_diagnostics_witness:
  "fst (handler (initial html_markup bare_page)) = Normal \<and>
   length (probe_output (initial html_markup bare_page)) = 2 \<and>
   probe_output (initial html_markup bare_page) ! 0 = init_diag \<and>
   fst (handler (initial html_markup shadowed_hello_page)) \<noteq> Normal \<and>
   probe_output (initial html_markup shadowed_hello_page) = [init_diag] \<and>
   \<not> shadowed (js ''querySelector'') (document (initial html_markup soup_page)) \<and>
   markup (initial html_markup soup_page) = html_markup \<and>
   fst (handler (initial html_markup soup_page)) = Normal"
proof -
  have n: "fst (handler (initial html_markup bare_page)) = Normal"
    by code_simp
  have t: "fst (handler (initial html_markup shadowed_hello_page)) \<noteq> Normal"
    by code_simp
  have a: "\<not> shadowed (js ''querySelector'') (document (initial html_markup soup_page))"
    by code_simp
  have k: "markup (initial html_markup soup_page) = html_markup"
    by (simp add: initial_def)
  show ?thesis
    using n t a k
      exactly_two_diagnostics [of "initial html_markup bare_page"]
      exactly_two_diagnostics [of "initial html_markup shadowed_hello_page"]
      exactly_two_diagnostics [of "initial html_markup soup_page"]
    by blast
qed

text \<open>
  C9 as written speaks of every run. On a page with \<^verbatim>\<open><form name="querySelector">\<close>
  the run emits the initialization diagnostic and throws: one diagnostic. The same
  holds when the read of \<^verbatim>\<open>innerHTML\<close> throws.
\<close>

theorem throwing_run_emits_one:
  "probe_output (initial html_markup shadowed_hello_page) = [init_diag] \<and>
   length (probe_output (initial html_markup shadowed_hello_page)) = 1 \<and>
   probe_output (initial failing_xml soup_page) = [init_diag]"
  by code_simp

text \<open>
  C10 (as amended). The diagnostics of a run, and how the run ends, depend on three
  facts about the document only: whether a named element shadows
  \<^verbatim>\<open>document.querySelector\<close>, whether a first element with the tag \<^verbatim>\<open>main\<close> exists
  and, if so, what reading the length of its serialized inner markup gives. Two runs
  over worlds that agree on these facts emit the same diagnostics.
\<close>

theorem output_determined_by_probe_facts:
  assumes "probe_facts w1 = probe_facts w2"
  shows "probe_output w1 = probe_output w2 \<and> fst (handler w1) = fst (handler w2)"
  using assms by (simp add: probe_output_eq completion_eq)

theorem output_determined_by_probe_facts_witness:
  "probe_facts (initial html_markup hello_page) =
     probe_facts (page_load html_markup bare_page world_page) \<and>
   document (initial html_markup hello_page) \<noteq>
     document (page_load html_markup bare_page world_page) \<and>
   probe_output (initial html_markup hello_page) =
     probe_output (page_load html_markup bare_page world_page) \<and>
   fst (handler (initial html_markup hello_page)) =
     fst (handler (page_load html_markup bare_page world_page))"
proof -
  have f: "probe_facts (initial html_markup hello_page) =
           probe_facts (page_load html_markup bare_page world_page)"
    by code_simp
  have d: "document (initial html_markup hello_page) \<noteq>
           document (page_load html_markup bare_page world_page)"
    by code_simp
  show ?thesis
    using f d output_determined_by_probe_facts [OF f] by blast
qed

text \<open>
  C10 as written names two facts: whether a first element with the tag \<^verbatim>\<open>main\<close>
  exists, and the length of its inner markup. The page \<^verbatim>\<open><main>Hello</main>\<close> and
  the page with \<^verbatim>\<open><form name="querySelector">\<close> before the same element agree on
  both, and the runs emit different diagnostics.
\<close>

theorem same_main_facts_different_output:
  "main_facts (initial html_markup hello_page) = Some (Inr 5) \<and>
   main_facts (initial html_markup shadowed_hello_page) = Some (Inr 5) \<and>
   probe_output (initial html_markup hello_page) = [init_diag, found_diag 5] \<and>
   probe_output (initial html_markup shadowed_hello_page) = [init_diag]"
  by code_simp

end
